theory Spec2Isabelle
  imports Complex_Main "HOL-Library.Multiset"
begin

section \<open>Shape-mode binning and reconstruction (cvapipe\_analysis, avgshape.py)\<close>

text \<open>
  A shallow embedding of \<^verbatim>\<open>src/cvapipe_analysis/steps/shapemode/avgshape.py\<close>.
  Numbers are real numbers: the arithmetic of numpy is taken exactly, without rounding,
  and the special values of IEEE arithmetic that the control flow depends on (NaN from
  0/0 and from statistics of an empty array, the infinite bin edges) are kept as values.
  Exceptions are values of the type \<open>error\<close>. The libraries the module calls (vtk,
  aicsshparam, the distributed handler) are parameters of the functions that call them.
  pandas and numpy are taken as of numpy 1.22 to 1.26 with pandas 1.x, the versions in
  which the module runs as written.
\<close>

subsection \<open>Values, errors, data frames\<close>

datatype cell = IntC int | NumC real | BoolC bool | StrC string

datatype error =
    KeyError              \<comment> \<open>a column label that the frame or series does not have\<close>
  | ValueError            \<comment> \<open>also \<^verbatim>\<open>ValueError(f"Column {feature} not found.")\<close>\<close>
  | TypeError
  | IndexError
  | ZeroDivisionError
  | DegeneratePlane       \<comment> \<open>\<^verbatim>\<open>Exception("Only zeros found in the plane axis.")\<close>\<close>
  | NoCoefficientsFound   \<comment> \<open>\<^verbatim>\<open>Exception("No coefficients found. Please check prefix: ...")\<close>\<close>

datatype npfloat = NegInf | Fin real | PosInf | NaN

text \<open>
  A data frame: the column labels in order, and the rows in order, each with its index
  label and its cells by column label. A row has a cell exactly for the columns of the
  frame (\<open>wf_df\<close>).
\<close>

record dataframe =
  columns :: "string list"
  rows :: "(cell \<times> (string \<rightharpoonup> cell)) list"


text \<open>\<^verbatim>\<open>df[c] = v\<close> for a scalar \<open>v\<close>: the column is overwritten, or appended.\<close>

definition set_column :: "string \<Rightarrow> cell \<Rightarrow> dataframe \<Rightarrow> dataframe" where
  "set_column c v df =
     \<lparr>columns = (if c \<in> set (columns df) then columns df else columns df @ [c]),
      rows = map (\<lambda>ir. (fst ir, (snd ir)(c \<mapsto> v))) (rows df)\<rparr>"

text \<open>\<^verbatim>\<open>df[c].values\<close>: KeyError when the frame has no such column.\<close>

definition get_column :: "dataframe \<Rightarrow> string \<Rightarrow> error + cell option list" where
  "get_column df c =
     (if c \<in> set (columns df) then Inr (map (\<lambda>ir. snd ir c) (rows df)) else Inl KeyError)"

text \<open>\<^verbatim>\<open>df.loc[mask, c] = v\<close> with the mask computed row by row.\<close>

definition loc_set :: "((string \<rightharpoonup> cell) \<Rightarrow> bool) \<Rightarrow> string \<Rightarrow> cell \<Rightarrow> dataframe \<Rightarrow> dataframe" where
  "loc_set msk c v df =
     df\<lparr>rows := map (\<lambda>ir. if msk (snd ir) then (fst ir, (snd ir)(c \<mapsto> v)) else ir) (rows df)\<rparr>"

text \<open>\<^verbatim>\<open>df.loc[mask]\<close>: a new frame with the rows of the mask.\<close>

definition loc_rows :: "((string \<rightharpoonup> cell) \<Rightarrow> bool) \<Rightarrow> dataframe \<Rightarrow> dataframe" where
  "loc_rows msk df = df\<lparr>rows := filter (\<lambda>ir. msk (snd ir)) (rows df)\<rparr>"

text \<open>\<^verbatim>\<open>df.drop(columns=[c])\<close> for a column the frame has: a new frame without it.\<close>

definition drop_column :: "string \<Rightarrow> dataframe \<Rightarrow> dataframe" where
  "drop_column c df =
     \<lparr>columns = removeAll c (columns df),
      rows = map (\<lambda>ir. (fst ir, (snd ir)(c := None))) (rows df)\<rparr>"

subsection \<open>numpy: percentiles\<close>

text \<open>The number in a numeric cell; booleans and strings are not numbers here.\<close>

fun cell_num :: "cell option \<Rightarrow> real option" where
  "cell_num (Some (IntC i)) = Some (real_of_int i)"
| "cell_num (Some (NumC x)) = Some x"
| "cell_num _ = None"

definition all_nums :: "cell option list \<Rightarrow> real list option" where
  "all_nums cs = (if list_all (\<lambda>c. cell_num c \<noteq> None) cs then Some (map (\<lambda>c. the (cell_num c)) cs) else None)"

text \<open>
  The \<open>q\<close>-th percentile of a non-empty array with numpy's default linear
  interpolation: the virtual index \<open>q/100 * (n - 1)\<close> in the sorted array, its floor
  and the next index (clipped), and the interpolation between the two entries.
\<close>

definition lerp_percentile :: "real list \<Rightarrow> real \<Rightarrow> real" where
  "lerp_percentile a q =
     (let n = length a; s = sort a;
          h = q / 100 * real (n - 1);
          lo = nat \<lfloor>h\<rfloor>;
          hi = min (lo + 1) (n - 1)
      in s ! lo + (s ! hi - s ! lo) * (h - real lo))"

text \<open>
  \<^verbatim>\<open>np.percentile(values, [q1, q2])\<close>: ValueError unless both percentiles are in
  [0, 100] (checked first), TypeError on an array that is not numeric (booleans cannot be
  subtracted), NaN (here \<open>None\<close>) for each percentile of an empty array.
\<close>

definition np_percentile2 :: "cell option list \<Rightarrow> real \<Rightarrow> real \<Rightarrow> error + (real option \<times> real option)" where
  "np_percentile2 cs q1 q2 =
     (if \<not> (0 \<le> q1 \<and> q1 \<le> 100 \<and> 0 \<le> q2 \<and> q2 \<le> 100) then Inl ValueError
      else case all_nums cs of
             None \<Rightarrow> Inl TypeError
           | Some a \<Rightarrow> if a = [] then Inr (None, None)
                      else Inr (Some (lerp_percentile a q1), Some (lerp_percentile a q2)))"

text \<open>The comparisons \<^verbatim>\<open>df[f] < x\<close> and \<^verbatim>\<open>df[f] > x\<close> of one cell; false against NaN.\<close>

definition cell_lt :: "cell option \<Rightarrow> real option \<Rightarrow> bool" where
  "cell_lt c x = (case (cell_num c, x) of (Some v, Some y) \<Rightarrow> v < y | _ \<Rightarrow> False)"

definition cell_gt :: "cell option \<Rightarrow> real option \<Rightarrow> bool" where
  "cell_gt c x = (case (cell_num c, x) of (Some v, Some y) \<Rightarrow> v > y | _ \<Rightarrow> False)"

subsection \<open>filter\_extremes\_based\_on\_percentile\<close>

text \<open>
  The loop over the features. The frame is the caller's object and is updated in place,
  so the function returns the frame as the loop leaves it together with the outcome.
  The percentiles of every feature are those of the whole column: the loop only writes
  the column \<^verbatim>\<open>extreme\<close>.
\<close>

fun flag_extremes :: "string list \<Rightarrow> real \<Rightarrow> dataframe \<Rightarrow> dataframe \<times> error option" where
  "flag_extremes [] pct df = (df, None)"
| "flag_extremes (f # fs) pct df =
     (case get_column df f of
        Inl e \<Rightarrow> (df, Some e)
      | Inr cs \<Rightarrow>
          (case np_percentile2 cs pct (100 - pct) of
             Inl e \<Rightarrow> (df, Some e)
           | Inr (finf, fsup) \<Rightarrow>
               flag_extremes fs pct
                 (loc_set (\<lambda>r. cell_gt (r f) fsup) ''extreme'' (BoolC True)
                   (loc_set (\<lambda>r. cell_lt (r f) finf) ''extreme'' (BoolC True) df))))"

text \<open>
  The function. First component: the caller's data frame after the call (the
  assignments to \<^verbatim>\<open>df["extreme"]\<close> and \<^verbatim>\<open>df.loc[..., "extreme"]\<close> write into the
  object that was passed in; \<^verbatim>\<open>df.loc[df.extreme == False]\<close> and \<^verbatim>\<open>drop\<close> make new
  frames). Second component: the exception raised, or the frame returned.
\<close>

definition filter_extremes_based_on_percentile ::
    "dataframe \<Rightarrow> string list \<Rightarrow> real \<Rightarrow> dataframe \<times> (error + dataframe)" where
  "filter_extremes_based_on_percentile df features pct =
     (case flag_extremes features pct (set_column ''extreme'' (BoolC False) df) of
        (df', Some e) \<Rightarrow> (df', Inl e)
      | (df', None) \<Rightarrow>
          (df', Inr (drop_column ''extreme''
                      (loc_rows (\<lambda>r. r ''extreme'' = Some (BoolC False)) df'))))"

subsection \<open>The percentile filter: what the contract speaks of\<close>







text \<open>Example frames: three cells with one feature; a frame whose feature is called \<^verbatim>\<open>extreme\<close>.\<close>

definition ex_cells :: dataframe where
  "ex_cells = \<lparr>columns = [''f''],
               rows = [(IntC 10, [''f'' \<mapsto> NumC 1]), (IntC 11, [''f'' \<mapsto> NumC 2]),
                       (IntC 12, [''f'' \<mapsto> NumC 100])]\<rparr>"



subsection \<open>get\_shcoeff\_matrix\_from\_dataframe\<close>

text \<open>
  A pandas Series: its labels with their values, in order (labels may repeat).
\<close>

type_synonym series = "(string \<times> cell) list"

text \<open>\<^verbatim>\<open>str(n)\<close> of a natural number: its decimal digits.\<close>

definition digit_char :: "nat \<Rightarrow> char" where
  "digit_char d = ''0123456789'' ! d"

function str_nat :: "nat \<Rightarrow> string" where
  "str_nat n = (if n < 10 then [digit_char n] else str_nat (n div 10) @ [digit_char (n mod 10)])"
  by pat_completeness auto

termination
  by (relation "measure id") auto

declare str_nat.simps [simp del]

text \<open>\<^verbatim>\<open>pat in s\<close> on strings: \<open>pat\<close> occurs in \<open>s\<close> as a contiguous substring.\<close>

fun starts_with :: "string \<Rightarrow> string \<Rightarrow> bool" where
  "starts_with [] s = True"
| "starts_with (p # ps) [] = False"
| "starts_with (p # ps) (c # cs) = (p = c \<and> starts_with ps cs)"

fun contains :: "string \<Rightarrow> string \<Rightarrow> bool" where
  "contains pat [] = (pat = [])"
| "contains pat (c # cs) = (starts_with pat (c # cs) \<or> contains pat cs)"

text \<open>The f-string \<^verbatim>\<open>f"{prefix}{l}M{m}C"\<close> (or \<^verbatim>\<open>S\<close>).\<close>

definition coeff_key :: "string \<Rightarrow> nat \<Rightarrow> nat \<Rightarrow> string \<Rightarrow> string" where
  "coeff_key prefix l m cs = prefix @ str_nat l @ ''M'' @ str_nat m @ cs"

text \<open>
  \<^verbatim>\<open>row[[f for f in row.keys() if pat in f]]\<close>: for every label that contains the
  pattern, the values under that label.
\<close>

definition select_keys :: "series \<Rightarrow> string \<Rightarrow> cell list" where
  "select_keys row pat =
     concat (map (\<lambda>k. map snd (filter (\<lambda>kv. fst kv = k) row))
                 (filter (contains pat) (map fst row)))"

text \<open>
  Assigning the selection to one entry of the float array succeeds when the selection
  has exactly one value and that value converts to a float (a string cell is taken not to
  spell a number); otherwise numpy raises, and the bare \<^verbatim>\<open>except\<close> swallows it.
\<close>

fun cell_float :: "cell \<Rightarrow> real option" where
  "cell_float (IntC i) = Some (real_of_int i)"
| "cell_float (NumC x) = Some x"
| "cell_float (BoolC b) = Some (if b then 1 else 0)"
| "cell_float (StrC s) = None"

fun to_scalar :: "cell list \<Rightarrow> real option" where
  "to_scalar [c] = cell_float c"
| "to_scalar cs = None"

text \<open>The array \<^verbatim>\<open>np.zeros((2, lmax, lmax))\<close> as nested lists, and the assignment to one entry.\<close>

definition zeros3 :: "nat \<Rightarrow> real list list list" where
  "zeros3 lmax = replicate 2 (replicate lmax (replicate lmax 0))"

definition set3 :: "nat \<Rightarrow> nat \<Rightarrow> nat \<Rightarrow> real \<Rightarrow> real list list list \<Rightarrow> real list list list" where
  "set3 c l m v coeffs = coeffs[c := (coeffs ! c)[l := (coeffs ! c ! l)[m := v]]]"

text \<open>
  The body of the loops: the \<^verbatim>\<open>try\<close> block assigns the cosine entry and then the sine
  entry; when the first assignment raises the second is skipped, when the second raises
  the first stays.
\<close>

definition store_pair :: "series \<Rightarrow> string \<Rightarrow> nat \<Rightarrow> nat \<Rightarrow> real list list list \<Rightarrow> real list list list" where
  "store_pair row prefix l m coeffs =
     (case to_scalar (select_keys row (coeff_key prefix l m ''C'')) of
        None \<Rightarrow> coeffs
      | Some x \<Rightarrow>
          (case to_scalar (select_keys row (coeff_key prefix l m ''S'')) of
             None \<Rightarrow> set3 0 l m x coeffs
           | Some y \<Rightarrow> set3 1 l m y (set3 0 l m x coeffs)))"

text \<open>
  The function: the two loops over \<open>l < lmax\<close> and \<open>m \<le> l\<close>, then the test
  \<^verbatim>\<open>if not np.abs(coeffs).sum()\<close>.
\<close>

definition get_shcoeff_matrix_from_dataframe :: "series \<Rightarrow> string \<Rightarrow> nat \<Rightarrow> error + real list list list" where
  "get_shcoeff_matrix_from_dataframe row prefix lmax =
     (let coeffs = fold (\<lambda>l cf. fold (\<lambda>m cf'. store_pair row prefix l m cf') [0..<l + 1] cf)
                        [0..<lmax] (zeros3 lmax)
      in if sum_list (map abs (concat (concat coeffs))) = 0 then Inl NoCoefficientsFound
         else Inr coeffs)"









subsection \<open>find\_plane\_mesh\_intersection\<close>

text \<open>
  A mesh is its points and its triangles (by point index); only the points are read here.
  A coordinate of a point is taken by axis number, 0, 1 or 2.
\<close>

type_synonym point = "real \<times> real \<times> real"

record mesh =
  mesh_points :: "point list"
  triangles :: "(nat \<times> nat \<times> nat) list"

fun coord :: "point \<Rightarrow> nat \<Rightarrow> real" where
  "coord (x, y, z) k = (if k = 0 then x else if k = 1 then y else z)"

fun set_coord :: "nat \<Rightarrow> real \<Rightarrow> point \<Rightarrow> point" where
  "set_coord k v (x, y, z) = (if k = 0 then (v, y, z) else if k = 1 then (x, v, z) else (x, y, v))"

text \<open>The plane source handed to vtk: origin and two corner points, at resolution 4 by 4.\<close>

record plane_source =
  origin :: point
  point1 :: point
  point2 :: point
  x_resolution :: nat
  y_resolution :: nat

text \<open>Minimum, maximum and mean of a non-empty array.\<close>

definition list_min :: "real list \<Rightarrow> real" where
  "list_min xs = fold min (tl xs) (hd xs)"

definition list_max :: "real list \<Rightarrow> real" where
  "list_max xs = fold max (tl xs) (hd xs)"

definition np_mean :: "real list \<Rightarrow> real" where
  "np_mean xs = sum_list xs / real (length xs)"

text \<open>
  \<^verbatim>\<open>math.atan2(y, x)\<close> on real numbers, \<^verbatim>\<open>math.degrees\<close>, and Python's \<^verbatim>\<open>% 360\<close>
  on floats, whose result lies in [0, 360).
\<close>

definition atan2 :: "real \<Rightarrow> real \<Rightarrow> real" where
  "atan2 y x =
     (if 0 < x then arctan (y / x)
      else if x < 0 \<and> 0 \<le> y then arctan (y / x) + pi
      else if x < 0 \<and> y < 0 then arctan (y / x) - pi
      else if 0 < y then pi / 2
      else if y < 0 then - pi / 2
      else 0)"

definition degrees :: "real \<Rightarrow> real" where
  "degrees r = r * 180 / pi"

definition mod360 :: "real \<Rightarrow> real" where
  "mod360 x = x - 360 * real_of_int \<lfloor>x / 360\<rfloor>"

text \<open>The sort key of a projected point, given the centre of the projected points.\<close>

definition clockwise_key :: "real \<times> real \<Rightarrow> real \<times> real \<Rightarrow> real" where
  "clockwise_key center c =
     mod360 (- 135 - degrees (atan2 (snd c - snd center) (fst c - fst center)))"

text \<open>
  The plane for the axis \<open>ax\<close>: at \<open>mid\<close> along \<open>ax\<close>, over the extent of the points in
  the other two axes widened by \<open>offset\<close>.
\<close>

definition make_plane :: "nat \<Rightarrow> real \<Rightarrow> real \<Rightarrow> point list \<Rightarrow> plane_source" where
  "make_plane ax mid offset points =
     (let lo = (\<lambda>k. list_min (map (\<lambda>p. coord p k) points) - offset);
          hi = (\<lambda>k. list_max (map (\<lambda>p. coord p k) points) + offset)
      in if ax = 0 then
           \<lparr>origin = (mid, lo 1, lo 2), point1 = (mid, lo 1, hi 2), point2 = (mid, hi 1, lo 2),
            x_resolution = 4, y_resolution = 4\<rparr>
         else if ax = 1 then
           \<lparr>origin = (lo 0, mid, lo 2), point1 = (lo 0, mid, hi 2), point2 = (hi 0, mid, lo 2),
            x_resolution = 4, y_resolution = 4\<rparr>
         else
           \<lparr>origin = (lo 0, lo 1, mid), point1 = (lo 0, hi 1, mid), point2 = (hi 0, lo 1, mid),
            x_resolution = 4, y_resolution = 4\<rparr>)"

text \<open>
  The clockwise sort of the intersection points: the projected coordinates are taken out
  (\<^verbatim>\<open>points[:, proj]\<close>), sorted by the key (Python's \<^verbatim>\<open>sorted\<close> is stable), and written
  back into the two projected columns, row by row (\<^verbatim>\<open>points[:, proj] = coords\<close>).
\<close>

definition sort_clockwise :: "nat \<times> nat \<Rightarrow> point list \<Rightarrow> point list" where
  "sort_clockwise proj points =
     (let coords = map (\<lambda>p. (coord p (fst proj), coord p (snd proj))) points;
          center = (sum_list (map fst coords) / real (length coords),
                    sum_list (map snd coords) / real (length coords));
          sorted = sort_key (clockwise_key center) coords
      in map (\<lambda>(p, c). set_coord (snd proj) (snd c) (set_coord (fst proj) (fst c) p))
             (zip points sorted))"

text \<open>
  The function. The projection is a pair of axes (the module passes [0, 1], [0, 2] and
  [1, 2]). The chain of vtk filters (triangulate the plane, intersect it with the mesh,
  read the points of the result) is the parameter \<open>intersect\<close>. Reading a projected axis
  beyond 2 is an IndexError; \<^verbatim>\<open>reduce\<close> over no intersection points is a TypeError.
\<close>

definition find_plane_mesh_intersection ::
    "(mesh \<Rightarrow> plane_source \<Rightarrow> point list) \<Rightarrow> nat \<times> nat \<Rightarrow> mesh \<Rightarrow> error + point list" where
  "find_plane_mesh_intersection intersect proj mesh =
     (case filter (\<lambda>a. a \<noteq> fst proj \<and> a \<noteq> snd proj) [0, 1, 2] of
        [] \<Rightarrow> Inl IndexError
      | ax # _ \<Rightarrow>
          (let points = mesh_points mesh in
           if sum_list (map (\<lambda>p. \<bar>coord p ax\<bar>) points) = 0 then Inl DegeneratePlane
           else
             (let mid = np_mean (map (\<lambda>p. coord p ax) points) + 3 / 4;
                  offset = 1 / 10 * list_max (map (\<lambda>k. list_max (map (\<lambda>p. coord p k) points)
                                                       - list_min (map (\<lambda>p. coord p k) points))
                                                [0, 1, 2]);
                  raw = intersect mesh (make_plane ax mid offset points)
              in if 3 \<le> fst proj \<or> 3 \<le> snd proj then Inl IndexError
                 else if raw = [] then Inl TypeError
                 else Inr (sort_clockwise proj raw))))"

text \<open>The axis orthogonal to a projection, as the function finds it.\<close>

definition orthogonal_axis :: "nat \<times> nat \<Rightarrow> nat" where
  "orthogonal_axis proj = hd (filter (\<lambda>a. a \<noteq> fst proj \<and> a \<noteq> snd proj) [0, 1, 2])"

text \<open>An example mesh and an example of what vtk may return: two points of a slice.\<close>

definition ex_mesh :: mesh where
  "ex_mesh = \<lparr>mesh_points = [(1, 0, 5), (- 1, 0, 7), (0, 1, 6)], triangles = [(0, 1, 2)]\<rparr>"

definition ex_flat_mesh :: mesh where
  "ex_flat_mesh = \<lparr>mesh_points = [(1, 0, 0), (- 1, 0, 0), (0, 1, 0)], triangles = [(0, 1, 2)]\<rparr>"

definition ex_intersect :: "mesh \<Rightarrow> plane_source \<Rightarrow> point list" where
  "ex_intersect m pl = [(1, 0, 5), (- 1, 0, 7)]"

subsection \<open>get\_mesh\_from\_dataframe and get\_contours\_of\_consecutive\_reconstructions\<close>

text \<open>
  The surface reconstruction of aicsshparam
  (\<^verbatim>\<open>shtools.get_reconstruction_from_coeffs\<close>) is the parameter \<open>reconstruct\<close>; it may
  fail.
\<close>

definition get_mesh_from_dataframe ::
    "(real list list list \<Rightarrow> error + mesh) \<Rightarrow> series \<Rightarrow> string \<Rightarrow> nat \<Rightarrow> error + mesh" where
  "get_mesh_from_dataframe reconstruct row prefix lmax =
     (case get_shcoeff_matrix_from_dataframe row prefix lmax of
        Inl e \<Rightarrow> Inl e
      | Inr coeffs \<Rightarrow> reconstruct coeffs)"

text \<open>
  \<^verbatim>\<open>mesh.GetBounds()\<close>: (xmin, xmax, ymin, ymax, zmin, zmax) of the points; vtk's
  uninitialised bounds for a mesh without points.
\<close>

definition get_bounds :: "mesh \<Rightarrow> real list" where
  "get_bounds m =
     (if mesh_points m = [] then [1, - 1, 1, - 1, 1, - 1]
      else concat (map (\<lambda>k. [list_min (map (\<lambda>p. coord p k) (mesh_points m)),
                               list_max (map (\<lambda>p. coord p k) (mesh_points m))]) [0, 1, 2]))"

text \<open>
  \<^verbatim>\<open>df.set_index("bin")\<close>: the cells of the column become the index labels and the
  column goes. \<^verbatim>\<open>df.iterrows()\<close>: every row as a Series over the columns.
\<close>

definition set_index :: "string \<Rightarrow> dataframe \<Rightarrow> dataframe" where
  "set_index c df =
     \<lparr>columns = removeAll c (columns df),
      rows = map (\<lambda>ir. (case snd ir c of Some b \<Rightarrow> b | None \<Rightarrow> fst ir, (snd ir)(c := None)))
                 (rows df)\<rparr>"

definition iterrows :: "dataframe \<Rightarrow> (cell \<times> series) list" where
  "iterrows df =
     map (\<lambda>ir. (fst ir, concat (map (\<lambda>c. case snd ir c of Some v \<Rightarrow> [(c, v)] | None \<Rightarrow> [])
                                      (columns df))))
         (rows df)"

text \<open>
  The body of the loop for one row: the mesh, its contour and its limits. Nothing
  catches an exception here or around the loop.
\<close>

definition reconstruct_row ::
    "(real list list list \<Rightarrow> error + mesh) \<Rightarrow> (mesh \<Rightarrow> plane_source \<Rightarrow> point list) \<Rightarrow>
     string \<Rightarrow> nat \<times> nat \<Rightarrow> nat \<Rightarrow> series \<Rightarrow> error + (point list \<times> mesh \<times> real list)" where
  "reconstruct_row reconstruct intersect prefix proj lmax row =
     (case get_mesh_from_dataframe reconstruct row prefix lmax of
        Inl e \<Rightarrow> Inl e
      | Inr m \<Rightarrow>
          (case find_plane_mesh_intersection intersect proj m of
             Inl e \<Rightarrow> Inl e
           | Inr proj_points \<Rightarrow> Inr (proj_points, m, get_bounds m)))"

text \<open>
  The loop, with the three lists it appends to. An exception in one row leaves the loop
  and the function.
\<close>

fun contours_loop ::
    "(real list list list \<Rightarrow> error + mesh) \<Rightarrow> (mesh \<Rightarrow> plane_source \<Rightarrow> point list) \<Rightarrow>
     string \<Rightarrow> nat \<times> nat \<Rightarrow> nat \<Rightarrow> series list \<Rightarrow>
     point list list \<times> mesh list \<times> real list list \<Rightarrow>
     error + (point list list \<times> mesh list \<times> real list list)" where
  "contours_loop reconstruct intersect prefix proj lmax [] acc = Inr acc"
| "contours_loop reconstruct intersect prefix proj lmax (row # rest) (contours, meshes, limits) =
     (case reconstruct_row reconstruct intersect prefix proj lmax row of
        Inl e \<Rightarrow> Inl e
      | Inr (proj_points, m, limit) \<Rightarrow>
          contours_loop reconstruct intersect prefix proj lmax rest
            (contours @ [proj_points], meshes @ [m], limits @ [limit]))"

definition get_contours_of_consecutive_reconstructions ::
    "(real list list list \<Rightarrow> error + mesh) \<Rightarrow> (mesh \<Rightarrow> plane_source \<Rightarrow> point list) \<Rightarrow>
     dataframe \<Rightarrow> string \<Rightarrow> nat \<times> nat \<Rightarrow> nat \<Rightarrow>
     error + (point list list \<times> mesh list \<times> real list list)" where
  "get_contours_of_consecutive_reconstructions reconstruct intersect df prefix proj lmax =
     (let df' = (if ''bin'' \<in> set (columns df) then set_index ''bin'' df else df)
      in contours_loop reconstruct intersect prefix proj lmax (map snd (iterrows df')) ([], [], []))"

text \<open>The rows the loop runs over.\<close>

definition bin_rows :: "dataframe \<Rightarrow> series list" where
  "bin_rows df =
     map snd (iterrows (if ''bin'' \<in> set (columns df) then set_index ''bin'' df else df))"

text \<open>
  An example of a reconstruction: a triangle whose size is the cosine coefficient and
  whose height is the sine coefficient of degree 0. An aggregate of two bins whose first
  bin reconstructs to a mesh of height zero, and the aggregate of the second bin alone.
\<close>

definition ex_reconstruct :: "real list list list \<Rightarrow> error + mesh" where
  "ex_reconstruct coeffs =
     (let a = coeffs ! 0 ! 0 ! 0; h = coeffs ! 1 ! 0 ! 0
      in Inr \<lparr>mesh_points = [(a, 0, h), (- a, 0, h), (0, a, h)], triangles = [(0, 1, 2)]\<rparr>)"

definition ex_agg_two_bins :: dataframe where
  "ex_agg_two_bins =
     \<lparr>columns = [''mem_shcoeffs_L0M0C'', ''mem_shcoeffs_L0M0S''],
      rows = [(IntC 1, [''mem_shcoeffs_L0M0C'' \<mapsto> NumC 1, ''mem_shcoeffs_L0M0S'' \<mapsto> NumC 0]),
              (IntC 2, [''mem_shcoeffs_L0M0C'' \<mapsto> NumC 1, ''mem_shcoeffs_L0M0S'' \<mapsto> NumC 6])]\<rparr>"

definition ex_agg_second_bin :: dataframe where
  "ex_agg_second_bin =
     \<lparr>columns = [''mem_shcoeffs_L0M0C'', ''mem_shcoeffs_L0M0S''],
      rows = [(IntC 2, [''mem_shcoeffs_L0M0C'' \<mapsto> NumC 1, ''mem_shcoeffs_L0M0S'' \<mapsto> NumC 6])]\<rparr>"

subsection \<open>transform\_coords\_to\_mem\_space and the nuclear offsets\<close>

text \<open>
  The rotation matrix about the z axis for an angle in degrees, applied by
  \<^verbatim>\<open>np.matmul\<close> to the vector from the cell centroid \<open>cm\<close> to the point.
\<close>

definition matvec :: "real list list \<Rightarrow> real list \<Rightarrow> real list" where
  "matvec mx v = map (\<lambda>row. sum_list (map (\<lambda>(a, b). a * b) (zip row v))) mx"

definition transform_coords_to_mem_space ::
    "real \<Rightarrow> real \<Rightarrow> real \<Rightarrow> real \<Rightarrow> point \<Rightarrow> point" where
  "transform_coords_to_mem_space xo yo zo angle cm =
     (let angle' = pi * angle / 180;
          rot_mx = [[cos angle', sin angle', 0],
                    [- sin angle', cos angle', 0],
                    [0, 0, 1]];
          pt_rot = matvec rot_mx [xo - coord cm 0, yo - coord cm 1, zo - coord cm 2]
      in (pt_rot ! 0, pt_rot ! 1, pt_rot ! 2))"

text \<open>
  \<^verbatim>\<open>process_this_index\<close>: the seven cells of a row of the per-cell frame (KeyError for
  a column the frame does not have, TypeError for a cell that is not a number), and the
  transform.
\<close>

definition offset_columns :: "string list" where
  "offset_columns =
     [''dna_position_x_centroid_lcc'', ''dna_position_y_centroid_lcc'',
      ''dna_position_z_centroid_lcc'', ''mem_shcoeffs_transform_angle_lcc'',
      ''mem_position_x_centroid_lcc'', ''mem_position_y_centroid_lcc'',
      ''mem_position_z_centroid_lcc'']"

definition cell_value :: "(string \<rightharpoonup> cell) \<Rightarrow> string \<Rightarrow> real" where
  "cell_value r c = (case cell_num (r c) of Some x \<Rightarrow> x | None \<Rightarrow> 0)"

definition process_this_index :: "string list \<Rightarrow> (string \<rightharpoonup> cell) \<Rightarrow> error + point" where
  "process_this_index cols r =
     (if \<not> list_all (\<lambda>c. c \<in> set cols) offset_columns then Inl KeyError
      else if \<not> list_all (\<lambda>c. cell_num (r c) \<noteq> None) offset_columns then Inl TypeError
      else Inr (transform_coords_to_mem_space
                  (cell_value r ''dna_position_x_centroid_lcc'')
                  (cell_value r ''dna_position_y_centroid_lcc'')
                  (cell_value r ''dna_position_z_centroid_lcc'')
                  (cell_value r ''mem_shcoeffs_transform_angle_lcc'')
                  (cell_value r ''mem_position_x_centroid_lcc'',
                   cell_value r ''mem_position_y_centroid_lcc'',
                   cell_value r ''mem_position_z_centroid_lcc'')))"

text \<open>
  \<^verbatim>\<open>handler.batched_map\<close> of the distributed handler: the results in the order of the
  inputs, or the first exception.
\<close>

fun batched_map :: "('a \<Rightarrow> error + 'b) \<Rightarrow> 'a list \<Rightarrow> error + 'b list" where
  "batched_map f [] = Inr []"
| "batched_map f (x # xs) =
     (case f x of
        Inl e \<Rightarrow> Inl e
      | Inr y \<Rightarrow> (case batched_map f xs of Inl e \<Rightarrow> Inl e | Inr ys \<Rightarrow> Inr (y # ys)))"

text \<open>
  \<^verbatim>\<open>df_agg.loc[b, c] = v\<close>: the cell of every row labelled \<open>b\<close>; a new row when
  there is none, and a new column when there is none.
\<close>

definition loc_set_cell :: "cell \<Rightarrow> string \<Rightarrow> cell \<Rightarrow> dataframe \<Rightarrow> dataframe" where
  "loc_set_cell b c v df =
     \<lparr>columns = (if c \<in> set (columns df) then columns df else columns df @ [c]),
      rows = (if list_ex (\<lambda>ir. fst ir = b) (rows df)
              then map (\<lambda>ir. if fst ir = b then (fst ir, (snd ir)(c \<mapsto> v)) else ir) (rows df)
              else rows df @ [(b, [c \<mapsto> v])])\<rparr>"

definition store_offsets :: "cell \<Rightarrow> point \<Rightarrow> dataframe \<Rightarrow> dataframe" where
  "store_offsets b v df_agg =
     loc_set_cell b ''dna_dzc'' (NumC (coord v 2))
       (loc_set_cell b ''dna_dyc'' (NumC (coord v 1))
         (loc_set_cell b ''dna_dxc'' (NumC (coord v 0)) df_agg))"

text \<open>
  The mean over the cells of one bin: the rows of the per-cell frame whose label is among
  the bin's, transformed, and averaged by component. Indexing the mean of no rows (a
  NaN scalar) is an IndexError.
\<close>

definition bin_offset :: "dataframe \<Rightarrow> cell list \<Rightarrow> error + point" where
  "bin_offset df indexes =
     (case batched_map (process_this_index (columns df))
             (map snd (filter (\<lambda>ir. fst ir \<in> set indexes) (rows df))) of
        Inl e \<Rightarrow> Inl e
      | Inr nuclei_cm_fix \<Rightarrow>
          if nuclei_cm_fix = [] then Inl IndexError
          else Inr (np_mean (map (\<lambda>p. coord p 0) nuclei_cm_fix),
                    np_mean (map (\<lambda>p. coord p 1) nuclei_cm_fix),
                    np_mean (map (\<lambda>p. coord p 2) nuclei_cm_fix)))"

fun offsets_loop :: "dataframe \<Rightarrow> (cell \<times> cell list) list \<Rightarrow> dataframe \<Rightarrow> error + dataframe" where
  "offsets_loop df [] df_agg = Inr df_agg"
| "offsets_loop df ((b, indexes) # rest) df_agg =
     (case bin_offset df indexes of
        Inl e \<Rightarrow> Inl e
      | Inr v \<Rightarrow> offsets_loop df rest (store_offsets b v df_agg))"

text \<open>
  The first part of \<^verbatim>\<open>animate_shape_modes_and_save_meshes\<close> (up to the loop over the
  projections): it fills the columns \<^verbatim>\<open>dna_dxc\<close>, \<^verbatim>\<open>dna_dyc\<close>, \<^verbatim>\<open>dna_dzc\<close> of the
  aggregate frame, which is the result here.
\<close>

definition nuclear_offsets ::
    "bool \<Rightarrow> dataframe \<Rightarrow> dataframe \<Rightarrow> (cell \<times> cell list) list \<Rightarrow> error + dataframe" where
  "nuclear_offsets fix_nuclear_position df df_agg bin_indexes =
     (if fix_nuclear_position then offsets_loop df bin_indexes df_agg
      else Inr (fold (\<lambda>bi agg. store_offsets (fst bi) (0, 0, 0) agg) bin_indexes df_agg))"

text \<open>
  What the contract speaks of: the nuclear centroid of a cell in the cell's aligned
  frame, and the mean of these over the cells of a bin; a bin's rows of the aggregate
  holding a given offset.
\<close>

definition aligned_offset :: "(string \<rightharpoonup> cell) \<Rightarrow> point" where
  "aligned_offset r =
     (let t = pi * cell_value r ''mem_shcoeffs_transform_angle_lcc'' / 180;
          dx = cell_value r ''dna_position_x_centroid_lcc'' - cell_value r ''mem_position_x_centroid_lcc'';
          dy = cell_value r ''dna_position_y_centroid_lcc'' - cell_value r ''mem_position_y_centroid_lcc'';
          dz = cell_value r ''dna_position_z_centroid_lcc'' - cell_value r ''mem_position_z_centroid_lcc''
      in (cos t * dx + sin t * dy, - sin t * dx + cos t * dy, dz))"

definition bin_cells :: "dataframe \<Rightarrow> cell list \<Rightarrow> (string \<rightharpoonup> cell) list" where
  "bin_cells df indexes = map snd (filter (\<lambda>ir. fst ir \<in> set indexes) (rows df))"

definition mean_aligned_offset :: "dataframe \<Rightarrow> cell list \<Rightarrow> point" where
  "mean_aligned_offset df indexes =
     (np_mean (map (\<lambda>r. coord (aligned_offset r) 0) (bin_cells df indexes)),
      np_mean (map (\<lambda>r. coord (aligned_offset r) 1) (bin_cells df indexes)),
      np_mean (map (\<lambda>r. coord (aligned_offset r) 2) (bin_cells df indexes)))"

definition has_offset :: "cell \<Rightarrow> point \<Rightarrow> dataframe \<Rightarrow> bool" where
  "has_offset b v df_agg =
     (list_ex (\<lambda>ir. fst ir = b) (rows df_agg) \<and>
      list_all (\<lambda>ir. fst ir = b \<longrightarrow>
                  snd ir ''dna_dxc'' = Some (NumC (coord v 0)) \<and>
                  snd ir ''dna_dyc'' = Some (NumC (coord v 1)) \<and>
                  snd ir ''dna_dzc'' = Some (NumC (coord v 2))) (rows df_agg))"

text \<open>
  Example: two cells of bin 1, one aligned at 0 and one at 90 degrees, and an aggregate
  with a row for the bin.
\<close>

definition ex_cells_xyz :: dataframe where
  "ex_cells_xyz =
     \<lparr>columns = offset_columns,
      rows = [(IntC 10, [''dna_position_x_centroid_lcc'' \<mapsto> NumC 3,
                         ''dna_position_y_centroid_lcc'' \<mapsto> NumC 4,
                         ''dna_position_z_centroid_lcc'' \<mapsto> NumC 5,
                         ''mem_shcoeffs_transform_angle_lcc'' \<mapsto> NumC 0,
                         ''mem_position_x_centroid_lcc'' \<mapsto> NumC 1,
                         ''mem_position_y_centroid_lcc'' \<mapsto> NumC 1,
                         ''mem_position_z_centroid_lcc'' \<mapsto> NumC 1]),
              (IntC 11, [''dna_position_x_centroid_lcc'' \<mapsto> NumC 1,
                         ''dna_position_y_centroid_lcc'' \<mapsto> NumC 2,
                         ''dna_position_z_centroid_lcc'' \<mapsto> NumC 3,
                         ''mem_shcoeffs_transform_angle_lcc'' \<mapsto> NumC 90,
                         ''mem_position_x_centroid_lcc'' \<mapsto> NumC 0,
                         ''mem_position_y_centroid_lcc'' \<mapsto> NumC 0,
                         ''mem_position_z_centroid_lcc'' \<mapsto> NumC 0])]\<rparr>"

definition ex_agg_one_bin :: dataframe where
  "ex_agg_one_bin = \<lparr>columns = [''f''], rows = [(IntC 1, [''f'' \<mapsto> NumC 0])]\<rparr>"

subsection \<open>digitize\_shape\_mode\<close>

text \<open>
  Division of one array entry by the standard deviation, with the IEEE results of a
  division by zero.
\<close>

definition np_div :: "real \<Rightarrow> real \<Rightarrow> npfloat" where
  "np_div x s =
     (if s \<noteq> 0 then Fin (x / s)
      else if x = 0 then NaN
      else if 0 < x then PosInf else NegInf)"

text \<open>
  Centring and z-scoring: \<^verbatim>\<open>values -= values.mean()\<close>, \<^verbatim>\<open>pc_std = values.std()\<close>,
  \<^verbatim>\<open>values /= pc_std\<close>. Mean and standard deviation of an empty array are NaN.
\<close>

definition zscore :: "real list \<Rightarrow> npfloat list \<times> npfloat" where
  "zscore values =
     (if values = [] then ([], NaN)
      else
        (let centered = map (\<lambda>v. v - np_mean values) values;
             pc_std = sqrt (np_mean (map (\<lambda>c. (c - np_mean centered)\<^sup>2) centered))
         in (map (\<lambda>c. np_div c pc_std) centered, Fin pc_std)))"

text \<open>\<^verbatim>\<open>np.linspace(start, stop, num)\<close> for \<open>num \<ge> 0\<close>.\<close>

definition linspace :: "real \<Rightarrow> real \<Rightarrow> nat \<Rightarrow> real list" where
  "linspace start stop num =
     (if num = 1 then [start]
      else map (\<lambda>i. start + real i * ((stop - start) / real (num - 1))) [0..<num])"

text \<open>
  The bin edges: \<^verbatim>\<open>np.unique\<close> of the centres minus and plus the half width (sorted,
  without repetitions), with the first and the last edge replaced by the infinities.
\<close>

definition unique_edges :: "real \<Rightarrow> real list \<Rightarrow> real list" where
  "unique_edges binw bin_centers =
     sort (remdups (concat (map (\<lambda>b. [b - binw, b + binw]) bin_centers)))"

definition bin_edges :: "nat \<Rightarrow> npfloat list" where
  "bin_edges nbins =
     (let binw = (2 - (- 2)) / (2 * (real nbins - 1));
          bin_centers = linspace (- 2) 2 nbins;
          edges = map Fin (unique_edges binw bin_centers)
      in (edges[0 := NegInf])[length edges - 1 := PosInf])"

text \<open>
  \<^verbatim>\<open>np.digitize(x, bins)\<close> for increasing bins: the number of bins that are at most
  \<open>x\<close>, in the order of numpy's sort, which puts NaN last.
\<close>

fun np_le :: "npfloat \<Rightarrow> npfloat \<Rightarrow> bool" where
  "np_le x NaN = True"
| "np_le NaN y = False"
| "np_le NegInf y = True"
| "np_le x NegInf = False"
| "np_le x PosInf = True"
| "np_le PosInf y = False"
| "np_le (Fin a) (Fin b) = (a \<le> b)"

definition np_digitize :: "npfloat \<Rightarrow> npfloat list \<Rightarrow> int" where
  "np_digitize x bins = int (length (filter (\<lambda>e. np_le e x) bins))"

text \<open>\<^verbatim>\<open>.values.astype(np.float32)\<close>: every cell as a float, or a ValueError.\<close>

definition floats :: "cell option list \<Rightarrow> real list" where
  "floats cs =
     map (\<lambda>c. case c of Some v \<Rightarrow> (case cell_float v of Some x \<Rightarrow> x | None \<Rightarrow> 0)
                         | None \<Rightarrow> 0) cs"

definition to_floats :: "cell option list \<Rightarrow> real list option" where
  "to_floats cs =
     (if list_all (\<lambda>c. case c of Some v \<Rightarrow> cell_float v \<noteq> None | None \<Rightarrow> False) cs
      then Some (floats cs) else None)"

text \<open>\<^verbatim>\<open>df[c] = array\<close>: one value for each row.\<close>

definition set_column_values :: "string \<Rightarrow> cell list \<Rightarrow> dataframe \<Rightarrow> dataframe" where
  "set_column_values c vs df =
     \<lparr>columns = (if c \<in> set (columns df) then columns df else columns df @ [c]),
      rows = map (\<lambda>(ir, v). (fst ir, (snd ir)(c \<mapsto> v))) (zip (rows df) vs)\<rparr>"

text \<open>
  The bin of a row, read from the column \<^verbatim>\<open>bin\<close> that the function has just written, and
  the groups of \<^verbatim>\<open>df.groupby(["bin"])\<close> in increasing order of the bin.
\<close>

definition bin_label :: "(string \<rightharpoonup> cell) \<Rightarrow> int" where
  "bin_label r = (case r ''bin'' of Some (IntC k) \<Rightarrow> k | _ \<Rightarrow> 0)"

definition groupby_bin :: "dataframe \<Rightarrow> (int \<times> (cell \<times> (string \<rightharpoonup> cell)) list) list" where
  "groupby_bin df =
     map (\<lambda>b. (b, filter (\<lambda>ir. bin_label (snd ir) = b) (rows df)))
         (sort (remdups (map (\<lambda>ir. bin_label (snd ir)) (rows df))))"

text \<open>
  \<^verbatim>\<open>df.groupby(["bin"]).mean()\<close>: one row for each bin, labelled with the bin, with the
  mean of every column of numbers other than \<^verbatim>\<open>bin\<close>; columns of strings are left out.
\<close>

definition float_column :: "dataframe \<Rightarrow> string \<Rightarrow> bool" where
  "float_column df c = (to_floats (map (\<lambda>ir. snd ir c) (rows df)) \<noteq> None)"

definition groupby_bin_mean :: "dataframe \<Rightarrow> dataframe" where
  "groupby_bin_mean df =
     (let cols = filter (\<lambda>c. c \<noteq> ''bin'' \<and> float_column df c) (columns df)
      in \<lparr>columns = cols,
          rows = map (\<lambda>(b, grp).
                        (IntC b,
                         map_of (map (\<lambda>c. (c, NumC (np_mean (floats (map (\<lambda>ir. snd ir c) grp)))))
                                     cols)))
                     (groupby_bin df)\<rparr>)"

text \<open>
  The table of the number of records of each structure in each bin
  (\<^verbatim>\<open>groupby(["structure_name", "bin"]).size()\<close>, unstacked): for each structure, in
  order of first appearance, the count in each bin, none where there is no record.
\<close>

definition freqs_per_structs :: "dataframe \<Rightarrow> (cell option \<times> (int \<times> nat option) list) list" where
  "freqs_per_structs df =
     map (\<lambda>s. (s, map (\<lambda>(b, grp).
                          (b, let n = length (filter (\<lambda>ir. snd ir ''structure_name'' = s) grp)
                              in if n = 0 then None else Some n))
                       (groupby_bin df)))
         (remdups (map (\<lambda>ir. snd ir ''structure_name'') (rows df)))"

text \<open>
  The function after the filter, on the filtered copy. The file of counts that
  \<^verbatim>\<open>save\<close> asks for is not part of the result and is left out.
\<close>

definition digitize_filtered ::
    "dataframe \<Rightarrow> string \<Rightarrow> int \<Rightarrow> bool \<Rightarrow>
     error + (dataframe \<times> (cell \<times> cell list) list \<times> (real list \<times> npfloat) \<times>
              (cell option \<times> (int \<times> nat option) list) list option)" where
  "digitize_filtered df feature nbins return_freqs_per_structs =
     (case get_column df feature of
        Inl e \<Rightarrow> Inl e
      | Inr cs \<Rightarrow>
          (case to_floats cs of
             None \<Rightarrow> Inl ValueError
           | Some vals \<Rightarrow>
               (let (values, pc_std) = zscore vals in
                if nbins = 1 then Inl ZeroDivisionError
                else if nbins < 0 then Inl ValueError
                else if nbins = 0 then Inl IndexError
                else
                  (let bin_centers = linspace (- 2) 2 (nat nbins);
                       df' = set_column_values ''bin''
                               (map (\<lambda>z. IntC (np_digitize z (bin_edges (nat nbins)))) values) df;
                       df_agg = groupby_bin_mean df';
                       bin_indexes = map (\<lambda>(b, grp). (IntC b, map fst grp)) (groupby_bin df')
                   in if return_freqs_per_structs then
                        (if ''structure_name'' \<in> set (columns df') \<and> ''bin'' \<in> set (columns df')
                         then Inr (df_agg, bin_indexes, (bin_centers, pc_std),
                                   Some (freqs_per_structs df'))
                         else Inl KeyError)
                      else Inr (df', bin_indexes, (bin_centers, pc_std), None)))))"

text \<open>
  The function: the check of the feature, the filter (which writes into the caller's
  frame, the first component of the result), and the rest on the filtered copy.
\<close>

definition digitize_shape_mode ::
    "dataframe \<Rightarrow> string \<Rightarrow> int \<Rightarrow> string list \<Rightarrow> real \<Rightarrow> bool \<Rightarrow>
     dataframe \<times>
     (error + (dataframe \<times> (cell \<times> cell list) list \<times> (real list \<times> npfloat) \<times>
               (cell option \<times> (int \<times> nat option) list) list option))" where
  "digitize_shape_mode df feature nbins filter_based_on filter_extremes_pct return_freqs_per_structs =
     (if feature \<notin> set (columns df) then (df, Inl ValueError)
      else
        (case filter_extremes_based_on_percentile df filter_based_on filter_extremes_pct of
           (df0, Inl e) \<Rightarrow> (df0, Inl e)
         | (df0, Inr df1) \<Rightarrow> (df0, digitize_filtered df1 feature nbins return_freqs_per_structs)))"



text \<open>Examples: two cells of two structures; a single cell.\<close>

definition ex_two_cells :: dataframe where
  "ex_two_cells =
     \<lparr>columns = [''structure_name'', ''f''],
      rows = [(IntC 10, [''structure_name'' \<mapsto> StrC ''A'', ''f'' \<mapsto> NumC 1]),
              (IntC 11, [''structure_name'' \<mapsto> StrC ''B'', ''f'' \<mapsto> NumC 3])]\<rparr>"


section \<open>Properties\<close>

subsection \<open>The percentile filter\<close>

lemma columns_loc_set [simp]: "columns (loc_set m c v df) = columns df"
  by (simp add: loc_set_def)

lemma rows_loc_set: "rows (loc_set m c v df) = map (\<lambda>ir. if m (snd ir) then (fst ir, (snd ir)(c \<mapsto> v)) else ir) (rows df)"
  by (simp add: loc_set_def)












lemmas filter_eval =
  filter_extremes_based_on_percentile_def set_column_def get_column_def np_percentile2_def
  all_nums_def lerp_percentile_def loc_set_def cell_lt_def cell_gt_def loc_rows_def drop_column_def





text \<open>
  C8. The input is the caller's object, and the assignments to the column
  \<^verbatim>\<open>extreme\<close> write into it: after the call on a frame with the single column
  \<^verbatim>\<open>f\<close> the caller's frame has the columns \<^verbatim>\<open>f\<close> and \<^verbatim>\<open>extreme\<close>, the
  latter holding the flags. Only the returned copy has the temporary column dropped.
\<close>

theorem filter_extremes_mutates_input:
  "columns ex_cells = [''f''] \<and>
   columns (fst (filter_extremes_based_on_percentile ex_cells [''f''] 1)) = [''f'', ''extreme''] \<and>
   rows (fst (filter_extremes_based_on_percentile ex_cells [''f''] 1)) =
     [(IntC 10, [''f'' \<mapsto> NumC 1, ''extreme'' \<mapsto> BoolC True]),
      (IntC 11, [''f'' \<mapsto> NumC 2, ''extreme'' \<mapsto> BoolC False]),
      (IntC 12, [''f'' \<mapsto> NumC 100, ''extreme'' \<mapsto> BoolC True])]"
  by (simp add: ex_cells_def filter_eval)













subsection \<open>The coefficient matrix\<close>























subsection \<open>The plane-mesh intersection\<close>

lemmas plane_eval = find_plane_mesh_intersection_def sort_clockwise_def clockwise_key_def
  mod360_def degrees_def atan2_def np_mean_def list_max_def list_min_def make_plane_def

lemma orthogonal_axis_cases:
  "filter (\<lambda>a. a \<noteq> fst proj \<and> a \<noteq> snd proj) [0, 1, 2::nat] =
     orthogonal_axis proj # tl (filter (\<lambda>a. a \<noteq> fst proj \<and> a \<noteq> snd proj) [0, 1, 2])"
  by (auto simp: orthogonal_axis_def)

lemma orthogonal_axis_props:
  "orthogonal_axis proj \<noteq> fst proj \<and> orthogonal_axis proj \<noteq> snd proj \<and> orthogonal_axis proj < 3"
  by (auto simp: orthogonal_axis_def)

lemma abs_coord_sum_zero_iff:
  "(sum_list (map (\<lambda>p. \<bar>coord p k\<bar>) ps) = 0) = (\<forall>p\<in>set ps. coord p k = 0)"
proof -
  have "(sum_list (map (\<lambda>p. \<bar>coord p k\<bar>) ps) = 0) = (\<forall>x\<in>set (map (\<lambda>p. \<bar>coord p k\<bar>) ps). x = 0)"
    by (rule sum_list_nonneg_eq_0_iff) auto
  then show ?thesis by simp
qed

lemma find_plane_unfold:
  "find_plane_mesh_intersection intersect proj mesh =
     (if \<forall>p\<in>set (mesh_points mesh). coord p (orthogonal_axis proj) = 0 then Inl DegeneratePlane
      else if 3 \<le> fst proj \<or> 3 \<le> snd proj then Inl IndexError
      else let ax = orthogonal_axis proj; points = mesh_points mesh;
               raw = intersect mesh
                 (make_plane ax (np_mean (map (\<lambda>p. coord p ax) points) + 3 / 4)
                    (1 / 10 * list_max (map (\<lambda>k. list_max (map (\<lambda>p. coord p k) points)
                                                       - list_min (map (\<lambda>p. coord p k) points))
                                                [0, 1, 2])) points)
           in if raw = [] then Inl TypeError else Inr (sort_clockwise proj raw))"
  unfolding find_plane_mesh_intersection_def
  by (subst orthogonal_axis_cases) (simp add: abs_coord_sum_zero_iff Let_def)

text \<open>
  C4. For every mesh and every projection pair, whatever vtk would compute, the function
  raises DegeneratePlane exactly when the coordinate of every mesh point along the axis
  orthogonal to the projection is zero; the test comes before the plane is built and the
  intersection is called, so on that path the outcome does not depend on them.
\<close>

theorem degenerate_plane_iff:
  "(find_plane_mesh_intersection intersect proj mesh = Inl DegeneratePlane \<longleftrightarrow>
      (\<forall>p\<in>set (mesh_points mesh). coord p (orthogonal_axis proj) = 0))
   \<and> ((\<forall>p\<in>set (mesh_points mesh). coord p (orthogonal_axis proj) = 0) \<longrightarrow>
        (\<forall>intersect'. find_plane_mesh_intersection intersect' proj mesh = Inl DegeneratePlane))"
  by (simp add: find_plane_unfold Let_def)

text \<open>
  A mesh in the plane z = 0 is refused for the projection (0, 1); the same points
  lifted off that plane are not.
\<close>

theorem degenerate_plane_iff_witness:
  "find_plane_mesh_intersection ex_intersect (0, 1) ex_flat_mesh = Inl DegeneratePlane \<and>
   find_plane_mesh_intersection ex_intersect (0, 1) ex_mesh \<noteq> Inl DegeneratePlane"
proof -
  have o: "orthogonal_axis (0, 1) = 2" by (simp add: orthogonal_axis_def)
  have a: "\<forall>p\<in>set (mesh_points ex_flat_mesh). coord p (orthogonal_axis (0, 1)) = 0"
    unfolding o by (simp add: ex_flat_mesh_def)
  have b: "\<not> (\<forall>p\<in>set (mesh_points ex_mesh). coord p (orthogonal_axis (0, 1)) = 0)"
    unfolding o by (simp add: ex_mesh_def)
  show ?thesis
    using degenerate_plane_iff[of ex_intersect "(0, 1)" ex_flat_mesh, THEN conjunct1]
          degenerate_plane_iff[of ex_intersect "(0, 1)" ex_mesh, THEN conjunct1] a b
    by blast
qed

lemma coord_set_coord:
  "a < 3 \<Longrightarrow> b < 3 \<Longrightarrow> a \<noteq> b \<Longrightarrow>
   coord (set_coord b v (set_coord a u p)) a = u \<and>
   coord (set_coord b v (set_coord a u p)) b = v \<and>
   (k \<noteq> a \<and> k \<noteq> b \<and> k < 3 \<longrightarrow> coord (set_coord b v (set_coord a u p)) k = coord p k)"
  by (cases p) auto

lemma map_fst_zip_fun:
  "length xs = length ys \<Longrightarrow> map (\<lambda>pc. f (fst pc)) (zip xs ys) = map f xs"
  by (induction xs ys rule: list_induct2) auto

lemma map_snd_zip_fun:
  "length xs = length ys \<Longrightarrow> map (\<lambda>pc. f (snd pc)) (zip xs ys) = map f ys"
  by (induction xs ys rule: list_induct2) auto

lemma sort_clockwise_props:
  assumes "fst proj < 3" "snd proj < 3" "fst proj \<noteq> snd proj"
  defines "pr \<equiv> (\<lambda>p. (coord p (fst proj), coord p (snd proj)))"
  shows "length (sort_clockwise proj raw) = length raw"
    and "map (\<lambda>p. coord p (orthogonal_axis proj)) (sort_clockwise proj raw) =
         map (\<lambda>p. coord p (orthogonal_axis proj)) raw"
    and "map pr (sort_clockwise proj raw) =
         sort_key (clockwise_key (sum_list (map fst (map pr raw)) / real (length raw),
                                  sum_list (map snd (map pr raw)) / real (length raw)))
                  (map pr raw)"
proof -
  let ?center = "(sum_list (map fst (map pr raw)) / real (length raw),
                  sum_list (map snd (map pr raw)) / real (length raw))"
  let ?sorted = "sort_key (clockwise_key ?center) (map pr raw)"
  let ?w = "\<lambda>(p, c). set_coord (snd proj) (snd c) (set_coord (fst proj) (fst c) p)"
  have sc: "sort_clockwise proj raw = map ?w (zip raw ?sorted)"
    by (simp add: sort_clockwise_def pr_def Let_def)
  have len: "length ?sorted = length raw" by simp
  show "length (sort_clockwise proj raw) = length raw" unfolding sc by simp
  have cs1: "coord (set_coord (snd proj) v (set_coord (fst proj) u p)) (fst proj) = u"
   and cs2: "coord (set_coord (snd proj) v (set_coord (fst proj) u p)) (snd proj) = v"
   and cs3: "coord (set_coord (snd proj) v (set_coord (fst proj) u p)) (orthogonal_axis proj) =
             coord p (orthogonal_axis proj)" for u v p
    using coord_set_coord[OF assms(1,2,3), of v u p "orthogonal_axis proj"]
          orthogonal_axis_props[of proj] by blast+
  have "map (\<lambda>p. coord p (orthogonal_axis proj)) (map ?w (zip raw ?sorted)) =
        map (\<lambda>pc. coord (fst pc) (orthogonal_axis proj)) (zip raw ?sorted)"
    by (simp add: case_prod_beta cs3 o_def)
  also have "\<dots> = map (\<lambda>p. coord p (orthogonal_axis proj)) raw"
    using len by (intro map_fst_zip_fun) simp
  finally show "map (\<lambda>p. coord p (orthogonal_axis proj)) (sort_clockwise proj raw) =
         map (\<lambda>p. coord p (orthogonal_axis proj)) raw" unfolding sc .
  have "map pr (map ?w (zip raw ?sorted)) = map (\<lambda>pc. id (snd pc)) (zip raw ?sorted)"
    unfolding pr_def by (simp add: case_prod_beta cs1 cs2 o_def)
  also have "\<dots> = map id ?sorted"
    using len by (intro map_snd_zip_fun) simp
  finally show "map pr (sort_clockwise proj raw) = ?sorted" unfolding sc by simp
qed

text \<open>
  C10. When the function returns, vtk having returned the points \<open>raw\<close> for the plane:
  the result has as many rows as \<open>raw\<close>; the coordinate along the orthogonal axis of
  every row is that of the same row of \<open>raw\<close>; the projected coordinates of the rows
  are those of \<open>raw\<close> sorted by the clockwise key, hence the same multiset of projected
  points. So a row of the result has the in-plane coordinates of one intersection point
  and the orthogonal coordinate of the point that was in that row.
\<close>

theorem clockwise_sort_keeps_orthogonal_column:
  assumes "find_plane_mesh_intersection intersect proj mesh = Inr out"
      and "fst proj \<noteq> snd proj"
  shows "\<exists>pl center.
           length out = length (intersect mesh pl) \<and>
           map (\<lambda>p. coord p (orthogonal_axis proj)) out =
             map (\<lambda>p. coord p (orthogonal_axis proj)) (intersect mesh pl) \<and>
           map (\<lambda>p. (coord p (fst proj), coord p (snd proj))) out =
             sort_key (clockwise_key center)
               (map (\<lambda>p. (coord p (fst proj), coord p (snd proj))) (intersect mesh pl)) \<and>
           mset (map (\<lambda>p. (coord p (fst proj), coord p (snd proj))) out) =
             mset (map (\<lambda>p. (coord p (fst proj), coord p (snd proj))) (intersect mesh pl))"
proof -
  let ?ax = "orthogonal_axis proj"
  let ?points = "mesh_points mesh"
  let ?pl = "make_plane ?ax (np_mean (map (\<lambda>p. coord p ?ax) ?points) + 3 / 4)
                    (1 / 10 * list_max (map (\<lambda>k. list_max (map (\<lambda>p. coord p k) ?points)
                                                       - list_min (map (\<lambda>p. coord p k) ?points))
                                                [0, 1, 2])) ?points"
  let ?raw = "intersect mesh ?pl"
  let ?pr = "\<lambda>p. (coord p (fst proj), coord p (snd proj))"
  from assms(1) have b: "fst proj < 3" "snd proj < 3" and out: "out = sort_clockwise proj ?raw"
    by (auto simp: find_plane_unfold Let_def split: if_splits)
  note p = sort_clockwise_props[OF b assms(2), of ?raw]
  have "mset (map ?pr out) = mset (map ?pr ?raw)"
    unfolding out p(3) by simp
  with p show ?thesis unfolding out by blast
qed

text \<open>
  The example: vtk returns (1, 0, 5) and (-1, 0, 7); the sort swaps the in-plane
  coordinates, and the rows of the result are (-1, 0, 5) and (1, 0, 7), neither of which
  is an intersection point.
\<close>

theorem clockwise_sort_keeps_orthogonal_column_witness:
  "find_plane_mesh_intersection ex_intersect (0, 1) ex_mesh = Inr [(- 1, 0, 5), (1, 0, 7)] \<and>
   map (\<lambda>p. coord p (orthogonal_axis (0, 1))) [(- 1, 0, 5), (1, 0, 7)] = [5, 7::real] \<and>
   (\<exists>pl. ex_intersect ex_mesh pl = [(1, 0, 5), (- 1, 0, 7)] \<and>
      mset (map (\<lambda>p. (coord p 0, coord p 1)) [(- 1, 0, 5), (1, 0, 7::real)]) =
      mset (map (\<lambda>p. (coord p 0, coord p 1)) (ex_intersect ex_mesh pl)))"
proof -
  have r: "find_plane_mesh_intersection ex_intersect (0, 1) ex_mesh = Inr [(- 1, 0, 5), (1, 0, 7)]"
    by (simp add: plane_eval ex_mesh_def ex_intersect_def)
  have n: "fst (0::nat, 1::nat) \<noteq> snd (0::nat, 1::nat)" by simp
  from clockwise_sort_keeps_orthogonal_column[OF r n] obtain pl where
    m: "mset (map (\<lambda>p. (coord p (fst (0::nat, 1::nat)), coord p (snd (0::nat, 1::nat))))
                  [(- 1, 0, 5), (1, 0, 7::real)]) =
        mset (map (\<lambda>p. (coord p (fst (0::nat, 1::nat)), coord p (snd (0::nat, 1::nat))))
                  (ex_intersect ex_mesh pl))"
    by blast
  have o: "map (\<lambda>p. coord p (orthogonal_axis (0, 1))) [(- 1, 0, 5), (1, 0, 7)] = [5, 7::real]"
    by (simp add: orthogonal_axis_def)
  have e: "ex_intersect ex_mesh pl = [(1, 0, 5), (- 1, 0, 7)]"
    by (simp add: ex_intersect_def)
  from m have m': "mset (map (\<lambda>p. (coord p 0, coord p 1)) [(- 1, 0, 5), (1, 0, 7::real)]) =
      mset (map (\<lambda>p. (coord p 0, coord p 1)) (ex_intersect ex_mesh pl))"
    by simp
  show ?thesis using r o e m' by blast
qed

subsection \<open>The per-bin reconstruction driver\<close>

lemma contours_loop_ok:
  "map (reconstruct_row R I prefix proj lmax) rs = map Inr vs \<Longrightarrow>
   contours_loop R I prefix proj lmax rs (cs, ms, ls) =
     Inr (cs @ map fst vs, ms @ map (fst \<circ> snd) vs, ls @ map (snd \<circ> snd) vs)"
proof (induction rs arbitrary: vs cs ms ls)
  case Nil
  then show ?case by simp
next
  case (Cons r rs)
  then obtain v ws where vs: "vs = v # ws" and r: "reconstruct_row R I prefix proj lmax r = Inr v"
    and rest: "map (reconstruct_row R I prefix proj lmax) rs = map Inr ws"
    by (cases vs) auto
  obtain c m l where v: "v = (c, m, l)" by (cases v) auto
  show ?case using Cons.IH[OF rest] by (simp add: r vs v)
qed

lemma contours_loop_fail:
  "map (reconstruct_row R I prefix proj lmax) pre = map Inr vs \<Longrightarrow>
   reconstruct_row R I prefix proj lmax r = Inl e \<Longrightarrow>
   contours_loop R I prefix proj lmax (pre @ r # post) (cs, ms, ls) = Inl e"
proof (induction pre arbitrary: vs cs ms ls)
  case Nil
  then show ?case by simp
next
  case (Cons q pre)
  then obtain v ws where vs: "vs = v # ws" and q: "reconstruct_row R I prefix proj lmax q = Inr v"
    and rest: "map (reconstruct_row R I prefix proj lmax) pre = map Inr ws"
    by (cases vs) auto
  obtain c m l where v: "v = (c, m, l)" by (cases v) auto
  show ?case using Cons.IH[OF rest Cons.prems(2)] by (simp add: q vs v)
qed

text \<open>
  C5 (as amended). When the reconstruction or the plane intersection of a bin fails, all
  bins before it having succeeded, the driver raises that error and returns no contour,
  mesh or limits, for any bin; the bins after it are not processed. When no bin fails,
  the driver returns for every bin, in order, the contour, the mesh and the limits that
  the bin's own row gives.
\<close>

theorem contours_driver_stops_at_first_failure:
  "(bin_rows df = pre @ r # post \<and>
    map (reconstruct_row R I prefix proj lmax) pre = map Inr vs \<and>
    reconstruct_row R I prefix proj lmax r = Inl e \<longrightarrow>
      get_contours_of_consecutive_reconstructions R I df prefix proj lmax = Inl e)
   \<and> (map (reconstruct_row R I prefix proj lmax) (bin_rows df) = map Inr ws \<longrightarrow>
      get_contours_of_consecutive_reconstructions R I df prefix proj lmax =
        Inr (map fst ws, map (fst \<circ> snd) ws, map (snd \<circ> snd) ws))"
  using contours_loop_fail[of R I prefix proj lmax pre vs r e post "[]" "[]" "[]"]
        contours_loop_ok[of R I prefix proj lmax "bin_rows df" ws "[]" "[]" "[]"]
  by (auto simp: get_contours_of_consecutive_reconstructions_def bin_rows_def Let_def)

lemmas contours_eval =
  iterrows_def set_index_def reconstruct_row_def
  get_mesh_from_dataframe_def get_shcoeff_matrix_from_dataframe_def zeros3_def store_pair_def
  select_keys_def coeff_key_def set3_def digit_char_def str_nat.simps get_bounds_def
  numeral_2_eq_2 Let_def

text \<open>
  The first of two bins reconstructs to a mesh in the plane z = 0: the driver raises
  DegeneratePlane, although the second bin alone gives a contour, a mesh and limits.
\<close>

theorem contours_driver_stops_at_first_failure_witness:
  "get_contours_of_consecutive_reconstructions ex_reconstruct ex_intersect ex_agg_two_bins
     ''mem_shcoeffs_L'' (0, 1) 1 = Inl DegeneratePlane \<and>
   get_contours_of_consecutive_reconstructions ex_reconstruct ex_intersect ex_agg_second_bin
     ''mem_shcoeffs_L'' (0, 1) 1 =
   Inr ([[(- 1, 0, 5), (1, 0, 7)]],
        [\<lparr>mesh_points = [(1, 0, 6), (- 1, 0, 6), (0, 1, 6)], triangles = [(0, 1, 2)]\<rparr>],
        [[- 1, 1, 0, 1, 6, 6]])"
proof -
  let ?r1 = "[(''mem_shcoeffs_L0M0C'', NumC 1), (''mem_shcoeffs_L0M0S'', NumC 0)]"
  let ?r2 = "[(''mem_shcoeffs_L0M0C'', NumC 1), (''mem_shcoeffs_L0M0S'', NumC 6)]"
  let ?v = "([(- 1, 0, 5), (1, 0, 7)],
        \<lparr>mesh_points = [(1, 0, 6), (- 1, 0, 6), (0, 1, 6)], triangles = [(0, 1, 2)]\<rparr>,
        [- 1, 1, 0, 1, 6, 6])"
  have b2: "bin_rows ex_agg_two_bins = [] @ ?r1 # [?r2]"
    by (simp add: bin_rows_def ex_agg_two_bins_def iterrows_def)
  have b1: "bin_rows ex_agg_second_bin = [?r2]"
    by (simp add: bin_rows_def ex_agg_second_bin_def iterrows_def)
  have f: "reconstruct_row ex_reconstruct ex_intersect ''mem_shcoeffs_L'' (0, 1) 1 ?r1 = Inl DegeneratePlane"
    by (simp add: contours_eval ex_reconstruct_def plane_eval)
  have g: "reconstruct_row ex_reconstruct ex_intersect ''mem_shcoeffs_L'' (0, 1) 1 ?r2 = Inr ?v"
    by (simp add: contours_eval ex_reconstruct_def plane_eval ex_intersect_def)
  have "get_contours_of_consecutive_reconstructions ex_reconstruct ex_intersect ex_agg_two_bins
     ''mem_shcoeffs_L'' (0, 1) 1 = Inl DegeneratePlane"
    using contours_driver_stops_at_first_failure[of ex_agg_two_bins "[]" ?r1 "[?r2]"
            ex_reconstruct ex_intersect "''mem_shcoeffs_L''" "(0, 1)" 1 "[]" DegeneratePlane, THEN conjunct1]
          b2 f by simp
  moreover have "get_contours_of_consecutive_reconstructions ex_reconstruct ex_intersect ex_agg_second_bin
     ''mem_shcoeffs_L'' (0, 1) 1 = Inr (map fst [?v], map (fst \<circ> snd) [?v], map (snd \<circ> snd) [?v])"
    using contours_driver_stops_at_first_failure[of ex_agg_second_bin _ _ _
            ex_reconstruct ex_intersect "''mem_shcoeffs_L''" "(0, 1)" 1 _ _ "[?v]", THEN conjunct2]
          b1 g by simp
  ultimately show ?thesis by simp
qed

text \<open>
  C5 as stated fails: with the failing first bin present the driver returns nothing for
  the second bin, whose contour, mesh and limits it returns when the first bin is absent.
\<close>

theorem contours_driver_isolation_counterexample:
  "get_contours_of_consecutive_reconstructions ex_reconstruct ex_intersect ex_agg_two_bins
     ''mem_shcoeffs_L'' (0, 1) 1 = Inl DegeneratePlane \<and>
   get_contours_of_consecutive_reconstructions ex_reconstruct ex_intersect ex_agg_second_bin
     ''mem_shcoeffs_L'' (0, 1) 1 \<noteq> Inl DegeneratePlane"
  by (simp add: get_contours_of_consecutive_reconstructions_def contours_eval ex_reconstruct_def
        ex_agg_two_bins_def ex_agg_second_bin_def plane_eval ex_intersect_def)

subsection \<open>The nuclear offsets\<close>

lemma transform_is_aligned_offset:
  "transform_coords_to_mem_space
     (cell_value r ''dna_position_x_centroid_lcc'')
     (cell_value r ''dna_position_y_centroid_lcc'')
     (cell_value r ''dna_position_z_centroid_lcc'')
     (cell_value r ''mem_shcoeffs_transform_angle_lcc'')
     (cell_value r ''mem_position_x_centroid_lcc'',
      cell_value r ''mem_position_y_centroid_lcc'',
      cell_value r ''mem_position_z_centroid_lcc'') = aligned_offset r"
  by (simp add: transform_coords_to_mem_space_def aligned_offset_def matvec_def Let_def)

lemma batched_map_ok:
  "batched_map f xs = Inr ys \<Longrightarrow> (\<forall>x\<in>set xs. f x = Inr (g x)) \<Longrightarrow> ys = map g xs"
  by (induction xs arbitrary: ys) (auto split: sum.splits)

lemma batched_map_all_ok:
  "batched_map f xs = Inr ys \<Longrightarrow> \<forall>x\<in>set xs. \<exists>y. f x = Inr y"
  by (induction xs arbitrary: ys) (auto split: sum.splits)

lemma process_this_index_ok:
  "process_this_index cols r = Inr y \<Longrightarrow> y = aligned_offset r"
  by (auto simp: process_this_index_def transform_is_aligned_offset split: if_splits)

lemma bin_offset_is_mean:
  assumes "bin_offset df indexes = Inr v"
  shows "v = mean_aligned_offset df indexes \<and> bin_cells df indexes \<noteq> []"
proof -
  from assms obtain ys where
    ys: "batched_map (process_this_index (columns df)) (bin_cells df indexes) = Inr ys"
    and ne: "ys \<noteq> []"
    and v: "v = (np_mean (map (\<lambda>p. coord p 0) ys), np_mean (map (\<lambda>p. coord p 1) ys),
                 np_mean (map (\<lambda>p. coord p 2) ys))"
    by (auto simp: bin_offset_def bin_cells_def split: sum.splits if_splits)
  have "\<forall>r\<in>set (bin_cells df indexes). process_this_index (columns df) r = Inr (aligned_offset r)"
    using batched_map_all_ok[OF ys] process_this_index_ok by metis
  from batched_map_ok[OF ys this] have m: "ys = map aligned_offset (bin_cells df indexes)" .
  show ?thesis using ne unfolding v m by (simp add: mean_aligned_offset_def o_def)
qed

lemma has_offset_loc_set_cell_other:
  "b' \<noteq> b \<Longrightarrow> has_offset b v (loc_set_cell b' c x agg) = has_offset b v agg"
  by (auto simp: has_offset_def loc_set_cell_def list_ex_iff list_all_iff)

lemma has_offset_store_other:
  "b' \<noteq> b \<Longrightarrow> has_offset b v (store_offsets b' w agg) = has_offset b v agg"
  by (simp add: store_offsets_def has_offset_loc_set_cell_other)

lemma rows_loc_set_cell_present:
  "list_ex (\<lambda>ir. fst ir = b) (rows agg) \<Longrightarrow>
   rows (loc_set_cell b c x agg) =
     map (\<lambda>ir. if fst ir = b then (fst ir, (snd ir)(c \<mapsto> x)) else ir) (rows agg)"
  by (simp add: loc_set_cell_def)

lemma in_rows_loc_set_cell:
  "ir \<in> set (rows (loc_set_cell b c x agg)) \<Longrightarrow>
   (\<exists>jr\<in>set (rows agg). ir = (if fst jr = b then (fst jr, (snd jr)(c \<mapsto> x)) else jr)) \<or>
   ir = (b, [c \<mapsto> x])"
  by (cases "list_ex (\<lambda>ir. fst ir = b) (rows agg)") (auto simp: loc_set_cell_def list_ex_iff)

lemma present_loc_set_cell: "list_ex (\<lambda>ir. fst ir = b) (rows (loc_set_cell b c x agg))"
proof (cases "list_ex (\<lambda>ir. fst ir = b) (rows agg)")
  case True
  then obtain jr where jr: "jr \<in> set (rows agg)" "fst jr = b" by (auto simp: list_ex_iff)
  then have "(fst jr, (snd jr)(c \<mapsto> x)) \<in> set (rows (loc_set_cell b c x agg))"
    using True by (force simp: loc_set_cell_def)
  then show ?thesis using jr(2)
    by (auto simp: list_ex_iff intro!: bexI[of _ "(fst jr, (snd jr)(c \<mapsto> x))"])
next
  case False
  then show ?thesis by (simp add: loc_set_cell_def)
qed

lemma cell_loc_set_cell:
  assumes "ir \<in> set (rows (loc_set_cell b c x agg))" "fst ir = b"
  shows "snd ir c = Some x"
proof -
  from in_rows_loc_set_cell[OF assms(1)] show ?thesis
  proof
    assume "\<exists>jr\<in>set (rows agg). ir = (if fst jr = b then (fst jr, (snd jr)(c \<mapsto> x)) else jr)"
    then obtain jr where "ir = (if fst jr = b then (fst jr, (snd jr)(c \<mapsto> x)) else jr)" by blast
    then show ?thesis using assms(2) by (cases "fst jr = b") auto
  next
    assume "ir = (b, [c \<mapsto> x])"
    then show ?thesis by simp
  qed
qed

lemma cell_loc_set_cell_keep:
  assumes "list_ex (\<lambda>ir. fst ir = b) (rows agg)"
      and "\<forall>ir\<in>set (rows agg). fst ir = b \<longrightarrow> snd ir d = Some y" and "c \<noteq> d"
      and "ir \<in> set (rows (loc_set_cell b c x agg))" and "fst ir = b"
  shows "snd ir d = Some y"
proof -
  define F where "F = (\<lambda>ir::cell \<times> (string \<rightharpoonup> cell). if fst ir = b then (fst ir, (snd ir)(c \<mapsto> x)) else ir)"
  have "ir \<in> set (map F (rows agg))"
    using assms(4) rows_loc_set_cell_present[OF assms(1), of c x] by (simp add: F_def)
  then obtain jr where jr: "jr \<in> set (rows agg)" and ir: "ir = F jr" by auto
  show ?thesis using assms(2,3,5) jr unfolding ir F_def by (cases "fst jr = b") auto
qed

lemma has_offset_store: "has_offset b v (store_offsets b v agg)"
proof -
  let ?a1 = "loc_set_cell b ''dna_dxc'' (NumC (coord v 0)) agg"
  let ?a2 = "loc_set_cell b ''dna_dyc'' (NumC (coord v 1)) ?a1"
  let ?a3 = "loc_set_cell b ''dna_dzc'' (NumC (coord v 2)) ?a2"
  have p1: "list_ex (\<lambda>ir. fst ir = b) (rows ?a1)" and p2: "list_ex (\<lambda>ir. fst ir = b) (rows ?a2)"
    and p3: "list_ex (\<lambda>ir. fst ir = b) (rows ?a3)"
    by (rule present_loc_set_cell)+
  have x1: "\<forall>ir\<in>set (rows ?a1). fst ir = b \<longrightarrow> snd ir ''dna_dxc'' = Some (NumC (coord v 0))"
    using cell_loc_set_cell by blast
  have x2: "\<forall>ir\<in>set (rows ?a2). fst ir = b \<longrightarrow> snd ir ''dna_dxc'' = Some (NumC (coord v 0))"
    using cell_loc_set_cell_keep[OF p1 x1, of "''dna_dyc''"] by simp
  have y2: "\<forall>ir\<in>set (rows ?a2). fst ir = b \<longrightarrow> snd ir ''dna_dyc'' = Some (NumC (coord v 1))"
    using cell_loc_set_cell by blast
  have x3: "\<forall>ir\<in>set (rows ?a3). fst ir = b \<longrightarrow> snd ir ''dna_dxc'' = Some (NumC (coord v 0))"
    using cell_loc_set_cell_keep[OF p2 x2, of "''dna_dzc''"] by simp
  have y3: "\<forall>ir\<in>set (rows ?a3). fst ir = b \<longrightarrow> snd ir ''dna_dyc'' = Some (NumC (coord v 1))"
    using cell_loc_set_cell_keep[OF p2 y2, of "''dna_dzc''"] by simp
  have z3: "\<forall>ir\<in>set (rows ?a3). fst ir = b \<longrightarrow> snd ir ''dna_dzc'' = Some (NumC (coord v 2))"
    using cell_loc_set_cell by blast
  show ?thesis
    unfolding store_offsets_def has_offset_def list_all_iff
    using p3 x3 y3 z3 by blast
qed

lemma offsets_loop_keeps:
  "offsets_loop df bs agg = Inr agg' \<Longrightarrow> b \<notin> fst ` set bs \<Longrightarrow>
   has_offset b v agg \<Longrightarrow> has_offset b v agg'"
proof (induction bs arbitrary: agg)
  case Nil
  then show ?case by simp
next
  case (Cons bi bs)
  obtain b' idx where bi: "bi = (b', idx)" by (cases bi) auto
  from Cons.prems(1) obtain w where w: "bin_offset df idx = Inr w"
    and rest: "offsets_loop df bs (store_offsets b' w agg) = Inr agg'"
    by (auto simp: bi split: sum.splits)
  have "b' \<noteq> b" "b \<notin> fst ` set bs" using Cons.prems(2) by (auto simp: bi)
  then show ?case
    using Cons.IH[OF rest] Cons.prems(3) by (simp add: has_offset_store_other)
qed

lemma offsets_loop_stores:
  "offsets_loop df bs agg = Inr agg' \<Longrightarrow> distinct (map fst bs) \<Longrightarrow> (b, idx) \<in> set bs \<Longrightarrow>
   has_offset b (mean_aligned_offset df idx) agg' \<and> bin_cells df idx \<noteq> []"
proof (induction bs arbitrary: agg)
  case Nil
  then show ?case by simp
next
  case (Cons bi bs)
  obtain b' idx' where bi: "bi = (b', idx')" by (cases bi) auto
  from Cons.prems(1) obtain w where w: "bin_offset df idx' = Inr w"
    and rest: "offsets_loop df bs (store_offsets b' w agg) = Inr agg'"
    by (auto simp: bi split: sum.splits)
  have d: "distinct (map fst bs)" "b' \<notin> fst ` set bs" using Cons.prems(2) by (auto simp: bi)
  show ?case
  proof (cases "(b, idx) = (b', idx')")
    case True
    then have e: "b = b'" "idx = idx'" by auto
    from bin_offset_is_mean[OF w] have wm: "w = mean_aligned_offset df idx'" "bin_cells df idx' \<noteq> []"
      by auto
    have "has_offset b' w (store_offsets b' w agg)" by (rule has_offset_store)
    from offsets_loop_keeps[OF rest d(2) this] show ?thesis using wm e by simp
  next
    case False
    then have "(b, idx) \<in> set bs" using Cons.prems(3) by (auto simp: bi)
    from Cons.IH[OF rest d(1) this] show ?thesis .
  qed
qed

lemma zero_offsets_fold:
  "distinct (map fst bs) \<Longrightarrow> (b, idx) \<in> set bs \<Longrightarrow>
   has_offset b (0, 0, 0) (fold (\<lambda>bi agg. store_offsets (fst bi) (0, 0, 0) agg) bs agg)"
proof (induction bs arbitrary: agg)
  case Nil
  then show ?case by simp
next
  case (Cons bi bs)
  have keep: "has_offset c (0, 0, 0) a \<Longrightarrow>
              has_offset c (0, 0, 0) (fold (\<lambda>bi agg. store_offsets (fst bi) (0, 0, 0) agg) cs a)" for c cs a
  proof (induction cs arbitrary: a)
    case Nil
    then show ?case by simp
  next
    case (Cons x cs)
    have "has_offset c (0, 0, 0) (store_offsets (fst x) (0, 0, 0) a)"
      using Cons.prems has_offset_store[of c "(0, 0, 0)" a] has_offset_store_other[of "fst x" c "(0, 0, 0)" "(0, 0, 0)" a]
      by (cases "fst x = c") auto
    from Cons.IH[OF this] show ?case by simp
  qed
  show ?case
  proof (cases "b = fst bi")
    case True
    have "has_offset b (0, 0, 0) (store_offsets (fst bi) (0, 0, 0) agg)"
      unfolding True by (rule has_offset_store)
    from keep[OF this] show ?thesis by simp
  next
    case False
    then have "(b, idx) \<in> set bs" using Cons.prems(2) by auto
    moreover have "distinct (map fst bs)" using Cons.prems(1) by simp
    ultimately show ?thesis using Cons.IH by simp
  qed
qed

lemma batched_map_succeeds:
  "\<forall>x\<in>set xs. \<exists>y. f x = Inr y \<Longrightarrow> \<exists>ys. batched_map f xs = Inr ys \<and> length ys = length xs"
proof (induction xs)
  case Nil
  then show ?case by simp
next
  case (Cons x xs)
  then obtain y ys where "f x = Inr y" "batched_map f xs = Inr ys" "length ys = length xs" by auto
  then show ?case by simp
qed

lemma bin_offset_succeeds:
  assumes "list_all (\<lambda>c. c \<in> set (columns df)) offset_columns"
      and "bin_cells df idx \<noteq> []"
      and "\<forall>r\<in>set (bin_cells df idx). list_all (\<lambda>c. cell_num (r c) \<noteq> None) offset_columns"
  shows "\<exists>v. bin_offset df idx = Inr v"
proof -
  have "\<forall>r\<in>set (bin_cells df idx). process_this_index (columns df) r = Inr (aligned_offset r)"
    using assms(1,3) by (simp add: process_this_index_def transform_is_aligned_offset)
  then have "\<forall>r\<in>set (bin_cells df idx). \<exists>y. process_this_index (columns df) r = Inr y"
    by blast
  from batched_map_succeeds[OF this] obtain ys where
    "batched_map (process_this_index (columns df)) (bin_cells df idx) = Inr ys" "length ys = length (bin_cells df idx)"
    by blast
  then show ?thesis using assms(2) by (auto simp: bin_offset_def bin_cells_def)
qed

lemma offsets_loop_succeeds:
  assumes "list_all (\<lambda>c. c \<in> set (columns df)) offset_columns"
  shows "\<forall>bi\<in>set bs. bin_cells df (snd bi) \<noteq> [] \<and>
           (\<forall>r\<in>set (bin_cells df (snd bi)). list_all (\<lambda>c. cell_num (r c) \<noteq> None) offset_columns) \<Longrightarrow>
         \<exists>agg'. offsets_loop df bs agg = Inr agg'"
proof (induction bs arbitrary: agg)
  case Nil
  then show ?case by simp
next
  case (Cons bi bs)
  obtain b idx where bi: "bi = (b, idx)" by (cases bi) auto
  from Cons.prems have "bin_cells df idx \<noteq> []"
    "\<forall>r\<in>set (bin_cells df idx). list_all (\<lambda>c. cell_num (r c) \<noteq> None) offset_columns"
    by (auto simp: bi)
  from bin_offset_succeeds[OF assms this] obtain v where v: "bin_offset df idx = Inr v" by blast
  have "\<exists>agg'. offsets_loop df bs (store_offsets b v agg) = Inr agg'"
    using Cons.IH Cons.prems by simp
  then show ?case by (simp add: bi v)
qed

text \<open>
  C6. With the option on, when the function gets through: for every bin, the rows of the
  aggregate labelled with the bin hold in \<^verbatim>\<open>dna_dxc\<close>, \<^verbatim>\<open>dna_dyc\<close>, \<^verbatim>\<open>dna_dzc\<close> the
  mean, over the cells of the bin (there is at least one), of the nuclear centroid minus
  the cell centroid turned in the plane by the cell's alignment angle, given in degrees:
  \<open>(cos t * dx + sin t * dy, - sin t * dx + cos t * dy, dz)\<close>; the turn keeps the
  in-plane length and the z component is the difference of the centroids. With the
  option off the function always gets through and the offset of every bin is (0, 0, 0).
  The bins of the list are distinct, as those of a \<^verbatim>\<open>groupby\<close> are. With the option
  on the function gets through when the per-cell frame has the seven columns, with
  numbers in the cells of every bin, and no bin is empty.
\<close>

theorem nuclear_offsets_are_mean_aligned_offsets:
  assumes "distinct (map fst bin_indexes)" and "(b, idx) \<in> set bin_indexes"
  shows "(nuclear_offsets True df df_agg bin_indexes = Inr agg' \<longrightarrow>
            has_offset b (mean_aligned_offset df idx) agg' \<and> bin_cells df idx \<noteq> [])
       \<and> (\<exists>agg0. nuclear_offsets False df df_agg bin_indexes = Inr agg0 \<and>
                   has_offset b (0, 0, 0) agg0)
       \<and> (coord (aligned_offset r) 0)\<^sup>2 + (coord (aligned_offset r) 1)\<^sup>2 =
           (cell_value r ''dna_position_x_centroid_lcc'' - cell_value r ''mem_position_x_centroid_lcc'')\<^sup>2 +
           (cell_value r ''dna_position_y_centroid_lcc'' - cell_value r ''mem_position_y_centroid_lcc'')\<^sup>2
       \<and> coord (aligned_offset r) 2 =
           cell_value r ''dna_position_z_centroid_lcc'' - cell_value r ''mem_position_z_centroid_lcc''
       \<and> (list_all (\<lambda>c. c \<in> set (columns df)) offset_columns \<and>
            (\<forall>bi\<in>set bin_indexes. bin_cells df (snd bi) \<noteq> [] \<and>
               (\<forall>r\<in>set (bin_cells df (snd bi)).
                   list_all (\<lambda>c. cell_num (r c) \<noteq> None) offset_columns)) \<longrightarrow>
            (\<exists>agg1. nuclear_offsets True df df_agg bin_indexes = Inr agg1))"
proof -
  have rot: "(c * x + s * y)\<^sup>2 + (c * y - s * x)\<^sup>2 = x\<^sup>2 + y\<^sup>2" if "s\<^sup>2 + c\<^sup>2 = 1" for c s x y :: real
  proof -
    have "(c * x + s * y)\<^sup>2 + (c * y - s * x)\<^sup>2 = (s\<^sup>2 + c\<^sup>2) * (x\<^sup>2 + y\<^sup>2)"
      by (simp add: power2_eq_square algebra_simps)
    then show ?thesis using that by simp
  qed
  have a: "nuclear_offsets True df df_agg bin_indexes = Inr agg' \<longrightarrow>
            has_offset b (mean_aligned_offset df idx) agg' \<and> bin_cells df idx \<noteq> []"
    using offsets_loop_stores[OF _ assms] by (simp add: nuclear_offsets_def)
  have b: "\<exists>agg0. nuclear_offsets False df df_agg bin_indexes = Inr agg0 \<and> has_offset b (0, 0, 0) agg0"
    using zero_offsets_fold[OF assms] by (simp add: nuclear_offsets_def)
  have c: "(coord (aligned_offset r) 0)\<^sup>2 + (coord (aligned_offset r) 1)\<^sup>2 =
           (cell_value r ''dna_position_x_centroid_lcc'' - cell_value r ''mem_position_x_centroid_lcc'')\<^sup>2 +
           (cell_value r ''dna_position_y_centroid_lcc'' - cell_value r ''mem_position_y_centroid_lcc'')\<^sup>2"
    by (simp add: aligned_offset_def Let_def rot)
  have d: "coord (aligned_offset r) 2 =
           cell_value r ''dna_position_z_centroid_lcc'' - cell_value r ''mem_position_z_centroid_lcc''"
    by (simp add: aligned_offset_def Let_def)
  have e: "list_all (\<lambda>c. c \<in> set (columns df)) offset_columns \<and>
            (\<forall>bi\<in>set bin_indexes. bin_cells df (snd bi) \<noteq> [] \<and>
               (\<forall>r\<in>set (bin_cells df (snd bi)).
                   list_all (\<lambda>c. cell_num (r c) \<noteq> None) offset_columns)) \<longrightarrow>
            (\<exists>agg1. nuclear_offsets True df df_agg bin_indexes = Inr agg1)"
    using offsets_loop_succeeds[of df bin_indexes df_agg] by (simp add: nuclear_offsets_def)
  show ?thesis using a b c d e by blast
qed

text \<open>
  The two cells give (2, 3, 4) and (2, -1, 3); the bin's offset is (2, 1, 7/2), and
  (0, 0, 0) with the option off.
\<close>

theorem nuclear_offsets_are_mean_aligned_offsets_witness:
  "(\<exists>agg'. nuclear_offsets True ex_cells_xyz ex_agg_one_bin [(IntC 1, [IntC 10, IntC 11])] = Inr agg' \<and>
            has_offset (IntC 1) (2, 1, 7 / 2) agg')
   \<and> (\<exists>agg0. nuclear_offsets False ex_cells_xyz ex_agg_one_bin [(IntC 1, [IntC 10, IntC 11])] = Inr agg0 \<and>
            has_offset (IntC 1) (0, 0, 0) agg0)"
proof -
  have d: "distinct (map fst [(IntC 1, [IntC 10, IntC 11])])"
    and m: "(IntC 1, [IntC 10, IntC 11]) \<in> set [(IntC 1, [IntC 10, IntC 11])]" by simp_all
  note t = nuclear_offsets_are_mean_aligned_offsets[OF d m, of ex_cells_xyz ex_agg_one_bin]
  have pre: "list_all (\<lambda>c. c \<in> set (columns ex_cells_xyz)) offset_columns \<and>
            (\<forall>bi\<in>set [(IntC 1, [IntC 10, IntC 11])]. bin_cells ex_cells_xyz (snd bi) \<noteq> [] \<and>
               (\<forall>r\<in>set (bin_cells ex_cells_xyz (snd bi)).
                   list_all (\<lambda>c. cell_num (r c) \<noteq> None) offset_columns))"
    by (simp add: ex_cells_xyz_def offset_columns_def bin_cells_def)
  have ok: "\<exists>agg'. nuclear_offsets True ex_cells_xyz ex_agg_one_bin [(IntC 1, [IntC 10, IntC 11])] = Inr agg'"
    using t pre by blast
  have v: "mean_aligned_offset ex_cells_xyz [IntC 10, IntC 11] = (2, 1, 7 / 2)"
    by (simp add: mean_aligned_offset_def bin_cells_def ex_cells_xyz_def aligned_offset_def
          cell_value_def np_mean_def Let_def)
  from ok obtain agg' where
    a: "nuclear_offsets True ex_cells_xyz ex_agg_one_bin [(IntC 1, [IntC 10, IntC 11])] = Inr agg'"
    by blast
  from t[of agg', THEN conjunct1] a have "has_offset (IntC 1) (2, 1, 7 / 2) agg'"
    by (simp add: v)
  with a t[of agg', THEN conjunct2, THEN conjunct1] show ?thesis by blast
qed

subsection \<open>The bin edges and the digitizer\<close>

lemmas digitize_eval =
  digitize_shape_mode_def digitize_filtered_def zscore_def np_div_def linspace_def bin_edges_def
  unique_edges_def np_digitize_def to_floats_def floats_def set_column_values_def bin_label_def
  groupby_bin_def groupby_bin_mean_def float_column_def freqs_per_structs_def np_mean_def
























text \<open>
  The standard deviation of a non-empty array is zero exactly when all its values are
  equal (to their mean).
\<close>

lemma np_mean_centered:
  assumes "vals \<noteq> []"
  shows "np_mean (map (\<lambda>v. v - np_mean vals) vals) = 0"
proof -
  have l: "real (length vals) \<noteq> 0" using assms by simp
  have "sum_list (map (\<lambda>v. v - m) vals) = sum_list vals - real (length vals) * m" for m
    by (induction vals) (auto simp: algebra_simps)
  then have "sum_list (map (\<lambda>v. v - np_mean vals) vals) = sum_list vals - real (length vals) * np_mean vals" .
  also have "\<dots> = 0" using l by (simp add: np_mean_def)
  finally show ?thesis by (simp add: np_mean_def)
qed

lemma np_mean_squares_zero:
  assumes "xs \<noteq> []"
  shows "(np_mean (map (\<lambda>x. x\<^sup>2) xs) = 0) = (\<forall>x\<in>set xs. x = (0::real))"
proof -
  have l: "real (length xs) \<noteq> 0" using assms by simp
  have "(sum_list (map (\<lambda>x. x\<^sup>2) xs) = 0) = (\<forall>y\<in>set (map (\<lambda>x. x\<^sup>2) xs). y = 0)"
    by (rule sum_list_nonneg_eq_0_iff) auto
  then show ?thesis using l by (simp add: np_mean_def)
qed

lemma zscore_std_zero_iff:
  assumes "vals \<noteq> []"
  shows "(snd (zscore vals) = Fin 0) = (\<forall>v\<in>set vals. v = np_mean vals)"
proof -
  let ?c = "map (\<lambda>v. v - np_mean vals) vals"
  have ne: "?c \<noteq> []" using assms by simp
  have "snd (zscore vals) = Fin (sqrt (np_mean (map (\<lambda>c. c\<^sup>2) ?c)))"
    using assms by (simp add: zscore_def Let_def np_mean_centered[OF assms] o_def)
  then have "(snd (zscore vals) = Fin 0) = (np_mean (map (\<lambda>c. c\<^sup>2) ?c) = 0)" by simp
  also have "\<dots> = (\<forall>x\<in>set ?c. x = 0)" by (rule np_mean_squares_zero[OF ne])
  also have "\<dots> = (\<forall>v\<in>set vals. v = np_mean vals)" by auto
  finally show ?thesis .
qed





text \<open>
  C7. With the table requested the first value returned is the frame of the means of
  each bin (one row for each bin, labelled by the bin, without the column \<^verbatim>\<open>bin\<close> and
  without the columns of strings), not the filtered per-cell frame with its column
  \<^verbatim>\<open>bin\<close> that is returned without the table.
\<close>

theorem digitize_returns_bin_means_with_freqs:
  "snd (digitize_shape_mode ex_two_cells ''f'' 2 [] 1 True) =
     Inr (\<lparr>columns = [''f''],
           rows = [(IntC 1, [''f'' \<mapsto> NumC 1]), (IntC 2, [''f'' \<mapsto> NumC 3])]\<rparr>,
          [(IntC 1, [IntC 10]), (IntC 2, [IntC 11])], ([- 2, 2], Fin 1),
          Some [(Some (StrC ''A''), [(1, Some 1), (2, None)]),
                (Some (StrC ''B''), [(1, None), (2, Some 1)])])
   \<and> snd (digitize_shape_mode ex_two_cells ''f'' 2 [] 1 False) =
     Inr (\<lparr>columns = [''structure_name'', ''f'', ''bin''],
           rows = [(IntC 10, [''structure_name'' \<mapsto> StrC ''A'', ''f'' \<mapsto> NumC 1, ''bin'' \<mapsto> IntC 1]),
                   (IntC 11, [''structure_name'' \<mapsto> StrC ''B'', ''f'' \<mapsto> NumC 3, ''bin'' \<mapsto> IntC 2])]\<rparr>,
          [(IntC 1, [IntC 10]), (IntC 2, [IntC 11])], ([- 2, 2], Fin 1), None)"
  by (simp add: digitize_eval filter_eval ex_two_cells_def upt_rec)

end
